theory Spec2Isabelle
  imports Complex_Main "HOL-Library.AList" "HOL-Library.Char_ord" "HOL-Library.List_Lexorder"
begin

section \<open>Paths and file names\<close>

text \<open>
  A \<^verbatim>\<open>pathlib.Path\<close> is modelled by the list of its components, root first. All paths
  handled by \<^verbatim>\<open>main\<close> are resolved (absolute) ones, so \<^verbatim>\<open>resolve()\<close> is the identity.
  \<^verbatim>\<open>p / n\<close> appends one component, \<^verbatim>\<open>p.name\<close> is the last component.
\<close>

type_synonym path = "string list"

definition name :: "path \<Rightarrow> string" where
  "name p = (if p = [] then [] else last p)"

definition child :: "path \<Rightarrow> string \<Rightarrow> path" where
  "child p n = p @ [n]"



text \<open>
  \<^verbatim>\<open>str.rfind('.')\<close>: the index of the last dot, \<open>None\<close> for Python's \<open>-1\<close>.
\<close>

definition rfind_dot :: "string \<Rightarrow> nat option" where
  "rfind_dot s =
     (if CHR ''.'' \<in> set s
      then Some (length s - 1 - length (takeWhile (\<lambda>c. c \<noteq> CHR ''.'') (rev s)))
      else None)"

text \<open>
  \<^verbatim>\<open>PurePath.suffix\<close> (CPython up to 3.13): with \<^verbatim>\<open>i = name.rfind('.')\<close>, the result is
  \<^verbatim>\<open>name[i:]\<close> when \<^verbatim>\<open>0 < i < len(name) - 1\<close> and the empty string otherwise.
\<close>

definition suffix :: "path \<Rightarrow> string" where
  "suffix p =
     (case rfind_dot (name p) of
        None \<Rightarrow> []
      | Some i \<Rightarrow> if 0 < i \<and> i + 1 < length (name p) then drop i (name p) else [])"




section \<open>The file system\<close>

text \<open>
  The file system is an association list from paths to nodes. A directory's entries are the
  stored paths whose parent it is. The queries \<^verbatim>\<open>exists\<close>, \<^verbatim>\<open>is_dir\<close> and \<^verbatim>\<open>is_file\<close> always
  answer; where a listing, a write or an \<^verbatim>\<open>unlink\<close> raises \<^verbatim>\<open>OSError\<close> is given by the
  environment below.
\<close>

datatype node = Dir | File string

type_synonym fs = "(path \<times> node) list"

definition exists_path :: "fs \<Rightarrow> path \<Rightarrow> bool" where
  "exists_path f p = (map_of f p \<noteq> None)"




text \<open>
  \<^verbatim>\<open>mkdir(parents=True, exist_ok=True)\<close>: every missing ancestor is created, an
  existing directory is accepted, an existing file on the way is an \<^verbatim>\<open>OSError\<close>. The
  result is the file system reached and whether the call succeeded.
\<close>

fun mkdir_each :: "path list \<Rightarrow> fs \<Rightarrow> bool \<times> fs" where
  "mkdir_each [] f = (True, f)"
| "mkdir_each (q # qs) f =
     (case map_of f q of
        None \<Rightarrow> mkdir_each qs (AList.update q Dir f)
      | Some Dir \<Rightarrow> mkdir_each qs f
      | Some (File _) \<Rightarrow> (False, f))"

definition ancestors_and_self :: "path \<Rightarrow> path list" where
  "ancestors_and_self p = map (\<lambda>n. take n p) [1..<Suc (length p)]"

section \<open>Exceptions, metadata, events\<close>

text \<open>
  The exception classes the handlers of the program tell apart. \<^verbatim>\<open>FileNotFoundError\<close> is a
  subclass of \<^verbatim>\<open>OSError\<close>; \<open>OSError\<close> below stands for the other \<^verbatim>\<open>OSError\<close>s and
  \<open>OtherException\<close> for every other \<^verbatim>\<open>Exception\<close>.
\<close>

datatype exn = FileNotFoundError | CalledProcessError string | OSError | OtherException

text \<open>
  The dictionary returned by \<^verbatim>\<open>_get_video_metadata_ffprobe\<close>. Python floats are modelled
  by reals: rounding, infinities and NaN are outside the model.
\<close>

record metadata =
  duration :: real
  width :: int
  height :: int

text \<open>
  What \<^verbatim>\<open>_get_video_metadata_ffprobe\<close> does for its caller: it returns a dictionary,
  returns \<^verbatim>\<open>None\<close>, or raises (\<^verbatim>\<open>FileNotFoundError\<close> when the \<^verbatim>\<open>ffprobe\<close> binary is
  missing).
\<close>

datatype probe_result = Meta metadata | NoMeta | ProbeRaises exn

text \<open>
  What \<^verbatim>\<open>_run_command(ffmpeg_command, check=True)\<close> does: \<open>raised = None\<close> is exit status
  0, a non-zero status is \<open>CalledProcessError stderr\<close>, a missing binary is
  \<open>FileNotFoundError\<close>. \<open>written\<close> is the content of the output file the run left behind,
  if it left one.
\<close>

record ffmpeg_result =
  raised :: "exn option"
  written :: "string option"

datatype tmp_result = TmpCreated path | TmpRaises exn

datatype level = DEBUG | INFO | WARNING | ERROR | CRITICAL

text \<open>
  One constructor for each logging call of \<^verbatim>\<open>get_dirs\<close>, \<^verbatim>\<open>get_videos\<close>,
  \<^verbatim>\<open>merge_video\<close> and the folder loop of \<^verbatim>\<open>main\<close>, without the formatted numbers of
  the duration check. The records \<^verbatim>\<open>main\<close> writes before the loop are the one \<open>Started\<close>,
  those of its summary the one \<open>Summary\<close>; its separator lines are left out.
\<close>

datatype msg =
    MainPathNotDirectory | FoundFolders nat | ErrorReadingDirectory
  | NotADirectory | FoundVideoParts nat
  | NoVideosProvided | AlreadyExists string | CheckingResolution
  | GettingMetadata nat string | MetadataFailed string | MetadataLogNotWritten
  | SkippingPart string | ReferenceSet string int int
  | MismatchInFolder | MismatchReference string int int | MismatchPart string int int
  | SkippingMerge | MismatchLogNotWritten
  | NoValidParts | PartsSkipped nat nat | ResolutionPassed int int | TotalDuration real
  | NoReference | FfprobeNotFound | UnexpectedMetadataError
  | GeneratedList | StartingMerge | MergeSaved | VerifyingDuration
  | MergedProbeFailed | DurationStats | DurationMismatch | DurationPassed
  | FfmpegFailed | FfmpegErrorSaved | FfmpegLogNotWritten
  | DeletedIncomplete | IncompleteNotDeleted | FfmpegNotFound | UnexpectedMergeError
  | DeletedTemp | TempNotDeleted
  | FfmpegMissingAtStart | FfprobeMissingAtStart | MainPathInvalid | OutputDirNotCreated
  | Started | SkippingDirectory string | ProcessingFolder string | NoVideoFiles string
  | Halting string | UnhandledException string | FinishedFolder string
  | Summary nat nat nat nat

text \<open>
  The observable history: every call of the prober, every run of \<^verbatim>\<open>ffmpeg\<close> (with the
  manifest and output paths of its command line) and every log record of the functions
  above, oldest first. Log records written inside \<^verbatim>\<open>_run_command\<close> and
  \<^verbatim>\<open>_get_video_metadata_ffprobe\<close> are not part of it.
\<close>

datatype event = Ffprobe path | Ffmpeg path path | Log level msg

record world =
  files :: fs
  trace :: "event list"

text \<open>
  The environment: what the external tools and the operating system answer.
  \<open>ffprobe p\<close> is the outcome of \<^verbatim>\<open>_get_video_metadata_ffprobe\<close> on \<open>p\<close>; \<open>ffmpeg m out\<close> the
  outcome of the \<^verbatim>\<open>ffmpeg\<close> run on a concat list of text \<open>m\<close> and the output path \<open>out\<close>;
  \<open>tempfile prefix\<close> the outcome of \<^verbatim>\<open>tempfile.NamedTemporaryFile\<close>; \<open>which tool\<close> says
  whether \<^verbatim>\<open>shutil.which\<close> finds the tool when \<^verbatim>\<open>main\<close> starts. \<open>write_fails\<close>,
  \<open>unlink_fails\<close> and \<open>listdir_fails\<close> say where a write (or \<^verbatim>\<open>mkdir\<close>), an \<^verbatim>\<open>unlink\<close>
  and a directory listing raise \<^verbatim>\<open>OSError\<close>.
\<close>

record env =
  ffprobe :: "path \<Rightarrow> probe_result"
  ffmpeg :: "string \<Rightarrow> path \<Rightarrow> ffmpeg_result"
  tempfile :: "string \<Rightarrow> tmp_result"
  which :: "string \<Rightarrow> bool"
  write_fails :: "path \<Rightarrow> bool"
  unlink_fails :: "path \<Rightarrow> bool"
  listdir_fails :: "path \<Rightarrow> bool"

definition logging :: "level \<Rightarrow> msg \<Rightarrow> world \<Rightarrow> world" where
  "logging l m w = w\<lparr>trace := trace w @ [Log l m]\<rparr>"

definition call :: "event \<Rightarrow> world \<Rightarrow> world" where
  "call ev w = w\<lparr>trace := trace w @ [ev]\<rparr>"

definition mkdir_p :: "env \<Rightarrow> path \<Rightarrow> fs \<Rightarrow> bool \<times> fs" where
  "mkdir_p e p f = (if write_fails e p then (False, f) else mkdir_each (ancestors_and_self p) f)"

definition write_text :: "env \<Rightarrow> path \<Rightarrow> string \<Rightarrow> fs \<Rightarrow> bool \<times> fs" where
  "write_text e p s f =
     (if write_fails e p then (False, f) else (True, AList.update p (File s) f))"

definition unlink :: "path \<Rightarrow> fs \<Rightarrow> fs" where
  "unlink p f = AList.delete p f"

section \<open>File system operations\<close>



section \<open>Texts written to files\<close>

text \<open>\<^verbatim>\<open>str\<close> of an integer and of an absolute path.\<close>

fun show_nat :: "nat \<Rightarrow> string" where
  "show_nat n =
     (if n < 10 then [''0123456789'' ! n] else show_nat (n div 10) @ [''0123456789'' ! (n mod 10)])"

definition show_int :: "int \<Rightarrow> string" where
  "show_int i = (if i < 0 then CHR ''-'' # show_nat (nat (- i)) else show_nat (nat i))"

definition path_str :: "path \<Rightarrow> string" where
  "path_str p = (if p = [] then ''/'' else concat (map (\<lambda>c. CHR ''/'' # c) p))"

definition newline :: string where
  "newline = [CHR 0x0A]"

definition resolution_str :: "int \<Rightarrow> int \<Rightarrow> string" where
  "resolution_str w h = show_int w @ ''x'' @ show_int h"

definition metadata_error_text :: "path \<Rightarrow> string" where
  "metadata_error_text video_path =
     ''Failed to get metadata for video part: '' @ path_str video_path @ newline"

definition mismatch_text :: "path \<Rightarrow> string \<Rightarrow> metadata \<Rightarrow> path \<Rightarrow> metadata \<Rightarrow> string" where
  "mismatch_text source_path ref_name first_video_metadata video_path metadata =
     ''Resolution mismatch detected in folder: '' @ path_str source_path @ newline @
     ''Reference video ('' @ ref_name @ ''): '' @
        resolution_str (width first_video_metadata) (height first_video_metadata) @ newline @
     ''Mismatch video ('' @ name video_path @ ''): '' @
        resolution_str (width metadata) (height metadata) @ newline @
     ''Mismatch file path: '' @ path_str video_path @ newline"

text \<open>The concat list: one line \<^verbatim>\<open>file '<path>'\<close> for each part, backslashes replaced by
  slashes.\<close>

definition safe_path_str :: "path \<Rightarrow> string" where
  "safe_path_str video = map (\<lambda>c. if c = CHR 0x5C then CHR ''/'' else c) (path_str video)"

definition manifest_text :: "path list \<Rightarrow> string" where
  "manifest_text valid_videos =
     concat (map (\<lambda>video. ''file '' @ [CHR 0x27] @ safe_path_str video @ [CHR 0x27] @ newline)
       valid_videos)"

text \<open>
  \<^verbatim>\<open>log_dir.mkdir(parents=True, exist_ok=True)\<close> followed by \<^verbatim>\<open>write_text\<close>, inside the
  \<^verbatim>\<open>try\<close> whose \<^verbatim>\<open>except OSError\<close> only logs: the result says whether both succeeded.
\<close>

definition write_error_log :: "env \<Rightarrow> path \<Rightarrow> path \<Rightarrow> string \<Rightarrow> world \<Rightarrow> bool \<times> world" where
  "write_error_log e log_dir error_log_path content w =
     (case mkdir_p e log_dir (files w) of
        (False, f) \<Rightarrow> (False, w\<lparr>files := f\<rparr>)
      | (True, f) \<Rightarrow>
          (case write_text e error_log_path content f of
             (ok, f') \<Rightarrow> (ok, w\<lparr>files := f'\<rparr>)))"

section \<open>Metadata validation and consistency check\<close>

text \<open>The local variables of \<^verbatim>\<open>merge_video\<close> that the validation loop updates.\<close>

record check_state =
  total_duration :: real
  first_video_metadata :: "metadata option"
  valid_videos_for_merge :: "path list"
  resolutions_match :: bool

definition initial_state :: check_state where
  "initial_state =
     \<lparr>total_duration = 0, first_video_metadata = None, valid_videos_for_merge = [],
      resolutions_match = True\<rparr>"

text \<open>How one iteration ends: the loop goes on, the loop is left by \<^verbatim>\<open>break\<close>, or an
  exception leaves the \<^verbatim>\<open>try\<close> block.\<close>

datatype flow = Next check_state | Break check_state | Raise exn

text \<open>The end of an iteration that accepts the part (lines 448-449).\<close>

definition accept_part :: "path \<Rightarrow> metadata \<Rightarrow> check_state \<Rightarrow> check_state" where
  "accept_part video_path metadata st =
     st\<lparr>valid_videos_for_merge := valid_videos_for_merge st @ [video_path],
        total_duration := total_duration st + duration metadata\<rparr>"

text \<open>The branch of a resolution mismatch (lines 423-444).\<close>

definition report_mismatch ::
  "env \<Rightarrow> path \<Rightarrow> path \<Rightarrow> path list \<Rightarrow> path \<Rightarrow> metadata \<Rightarrow> metadata \<Rightarrow> check_state \<Rightarrow> world \<Rightarrow> world"
where
  "report_mismatch e source_path log_dir videos video_path metadata ref st w =
     (let folder_name = name source_path;
          w1 = logging ERROR MismatchInFolder w;
          ref_name = (if valid_videos_for_merge st \<noteq> [] then name (hd (valid_videos_for_merge st))
                      else name (hd videos));
          w2 = logging ERROR (MismatchReference ref_name (width ref) (height ref)) w1;
          w3 = logging ERROR (MismatchPart (name video_path) (width metadata) (height metadata)) w2;
          w4 = logging ERROR SkippingMerge w3;
          error_log_path = child log_dir (folder_name @ ''_resolution_mismatch.log'')
      in case write_error_log e log_dir error_log_path
                (mismatch_text source_path ref_name ref video_path metadata) w4 of
           (True, w5) \<Rightarrow> w5
         | (False, w5) \<Rightarrow> logging ERROR MismatchLogNotWritten w5)"

text \<open>The branch of a failed metadata retrieval (lines 398-407).\<close>

definition report_metadata_failure :: "env \<Rightarrow> path \<Rightarrow> path \<Rightarrow> path \<Rightarrow> world \<Rightarrow> world" where
  "report_metadata_failure e source_path log_dir video_path w =
     (let folder_name = name source_path;
          w1 = logging ERROR (MetadataFailed (name video_path)) w;
          error_log_path = child log_dir (folder_name @ ''_metadata_error.log'')
      in case write_error_log e log_dir error_log_path (metadata_error_text video_path) w1 of
           (True, w2) \<Rightarrow> w2
         | (False, w2) \<Rightarrow> logging ERROR MetadataLogNotWritten w2)"

text \<open>One iteration of the loop over \<^verbatim>\<open>enumerate(videos)\<close> (lines 392-449).\<close>

definition check_part ::
  "env \<Rightarrow> path \<Rightarrow> path \<Rightarrow> path list \<Rightarrow> nat \<Rightarrow> path \<Rightarrow> check_state \<Rightarrow> world \<Rightarrow> flow \<times> world"
where
  "check_part e source_path log_dir videos idx video_path st w =
     (let w1 = logging DEBUG (GettingMetadata (idx + 1) (name video_path)) w;
          w2 = call (Ffprobe video_path) w1
      in case ffprobe e video_path of
           ProbeRaises x \<Rightarrow> (Raise x, w2)
         | NoMeta \<Rightarrow>
             (Break (st\<lparr>resolutions_match := False\<rparr>),
              report_metadata_failure e source_path log_dir video_path w2)
         | Meta metadata \<Rightarrow>
             if duration metadata \<le> 0 then (Next st, logging WARNING (SkippingPart (name video_path)) w2)
             else
               (case first_video_metadata st of
                  None \<Rightarrow>
                    (Next (accept_part video_path metadata (st\<lparr>first_video_metadata := Some metadata\<rparr>)),
                     logging INFO (ReferenceSet (name video_path) (width metadata) (height metadata)) w2)
                | Some ref \<Rightarrow>
                    if (width metadata, height metadata) \<noteq> (width ref, height ref)
                    then (Break (st\<lparr>resolutions_match := False\<rparr>),
                          report_mismatch e source_path log_dir videos video_path metadata ref st w2)
                    else (Next (accept_part video_path metadata st), w2)))"

text \<open>The loop, over the parts still to visit; \<open>idx\<close> is the index of the first of them.\<close>

fun check_parts ::
  "env \<Rightarrow> path \<Rightarrow> path \<Rightarrow> path list \<Rightarrow> nat \<Rightarrow> path list \<Rightarrow> check_state \<Rightarrow> world \<Rightarrow> flow \<times> world"
where
  "check_parts e source_path log_dir videos idx [] st w = (Next st, w)"
| "check_parts e source_path log_dir videos idx (video_path # rest) st w =
     (case check_part e source_path log_dir videos idx video_path st w of
        (Next st', w') \<Rightarrow> check_parts e source_path log_dir videos (idx + 1) rest st' w'
      | (Break st', w') \<Rightarrow> (Break st', w')
      | (Raise x, w') \<Rightarrow> (Raise x, w'))"

text \<open>How a phase of \<^verbatim>\<open>merge_video\<close> ends: with \<^verbatim>\<open>return b\<close>, or by falling through to
  the next phase with the validated state.\<close>

datatype phase = Return bool | Proceed check_state

text \<open>The two \<^verbatim>\<open>except\<close> clauses of the validation phase (lines 484-493).\<close>

definition check_except :: "exn \<Rightarrow> world \<Rightarrow> phase \<times> world" where
  "check_except x w =
     (if x = FileNotFoundError then (Return False, logging CRITICAL FfprobeNotFound w)
      else (Return False, logging ERROR UnexpectedMetadataError w))"

text \<open>The statements after the loop, still inside the \<^verbatim>\<open>try\<close> (lines 451-481).\<close>

definition after_check :: "env \<Rightarrow> path list \<Rightarrow> check_state \<Rightarrow> world \<Rightarrow> phase \<times> world" where
  "after_check e videos st w =
     (if \<not> resolutions_match st then (Return False, w)
      else if valid_videos_for_merge st = [] then (Return False, logging ERROR NoValidParts w)
      else
        let num_initial_videos = length videos;
            num_valid_parts = length (valid_videos_for_merge st);
            w1 = (if num_valid_parts < num_initial_videos
                  then logging WARNING (PartsSkipped num_valid_parts num_initial_videos) w else w);
            passed = (\<lambda>md st' w'.
              (Proceed st',
               logging DEBUG (TotalDuration (total_duration st'))
                 (logging INFO (ResolutionPassed (width md) (height md)) w')))
        in case first_video_metadata st of
             Some md \<Rightarrow> passed md st w1
           | None \<Rightarrow>
               (let w2 = call (Ffprobe (hd (valid_videos_for_merge st))) w1
                in case ffprobe e (hd (valid_videos_for_merge st)) of
                     ProbeRaises x \<Rightarrow> check_except x w2
                   | NoMeta \<Rightarrow> (Return False, logging ERROR NoReference w2)
                   | Meta md \<Rightarrow> passed md (st\<lparr>first_video_metadata := Some md\<rparr>) w2))"

text \<open>The validation phase (lines 382-493).\<close>

definition validate :: "env \<Rightarrow> path list \<Rightarrow> path \<Rightarrow> path \<Rightarrow> world \<Rightarrow> phase \<times> world" where
  "validate e videos source_path log_dir w =
     (let w0 = logging INFO CheckingResolution w
      in case check_parts e source_path log_dir videos 0 videos initial_state w0 of
           (Raise x, w1) \<Rightarrow> check_except x w1
         | (Next st, w1) \<Rightarrow> after_check e videos st w1
         | (Break st, w1) \<Rightarrow> after_check e videos st w1)"

section \<open>The merging process\<close>

text \<open>The duration verification of the merged file (lines 541-559).\<close>

definition duration_tolerance_abs :: real where
  "duration_tolerance_abs = 5.0"

definition duration_tolerance_rel :: real where
  "duration_tolerance_rel = 0.02"

definition max_allowed_diff :: "real \<Rightarrow> real" where
  "max_allowed_diff expected = max duration_tolerance_abs (expected * duration_tolerance_rel)"

definition duration_check :: "real \<Rightarrow> real \<Rightarrow> world \<Rightarrow> world" where
  "duration_check expected merged_duration w =
     (let duration_diff = \<bar>expected - merged_duration\<bar>;
          w1 = logging DEBUG DurationStats w
      in if duration_diff > max_allowed_diff expected then logging WARNING DurationMismatch w1
         else logging INFO DurationPassed w1)"

text \<open>The handler of \<^verbatim>\<open>subprocess.CalledProcessError\<close> (lines 564-586).\<close>

definition ffmpeg_failed :: "env \<Rightarrow> path \<Rightarrow> string \<Rightarrow> path \<Rightarrow> string \<Rightarrow> world \<Rightarrow> bool \<times> world" where
  "ffmpeg_failed e log_dir folder_name video_output_path stderr w =
     (let w1 = logging ERROR FfmpegFailed w;
          error_log_path = child log_dir (folder_name @ ''_ffmpeg_error.log'');
          error_content = (if stderr = [] then ''No stderr captured from FFmpeg.'' else stderr);
          w2 = (case write_error_log e log_dir error_log_path error_content w1 of
                  (True, w') \<Rightarrow> logging ERROR FfmpegErrorSaved w'
                | (False, w') \<Rightarrow> logging ERROR FfmpegLogNotWritten w');
          w3 = (if exists_path (files w2) video_output_path
                then (if unlink_fails e video_output_path then logging ERROR IncompleteNotDeleted w2
                      else logging INFO DeletedIncomplete
                             (w2\<lparr>files := unlink video_output_path (files w2)\<rparr>))
                else w2)
      in (False, w3))"

text \<open>The handler of every other \<^verbatim>\<open>Exception\<close> (lines 597-604).\<close>

definition merge_unexpected :: "env \<Rightarrow> path \<Rightarrow> world \<Rightarrow> bool \<times> world" where
  "merge_unexpected e video_output_path w =
     (let w1 = logging ERROR UnexpectedMergeError w;
          w2 = (if exists_path (files w1) video_output_path \<and> \<not> unlink_fails e video_output_path
                then w1\<lparr>files := unlink video_output_path (files w1)\<rparr> else w1)
      in (False, w2))"

text \<open>The \<^verbatim>\<open>except\<close> clauses of the merging phase, in the order of the source.\<close>

definition merge_except :: "env \<Rightarrow> path \<Rightarrow> string \<Rightarrow> path \<Rightarrow> exn \<Rightarrow> world \<Rightarrow> bool \<times> world" where
  "merge_except e log_dir folder_name video_output_path x w =
     (case x of
        CalledProcessError stderr \<Rightarrow> ffmpeg_failed e log_dir folder_name video_output_path stderr w
      | FileNotFoundError \<Rightarrow> (False, logging CRITICAL FfmpegNotFound w)
      | _ \<Rightarrow> merge_unexpected e video_output_path w)"

text \<open>The \<^verbatim>\<open>finally\<close> clause (lines 606-616).\<close>

definition cleanup :: "env \<Rightarrow> path option \<Rightarrow> world \<Rightarrow> world" where
  "cleanup e list_file_path w =
     (case list_file_path of
        None \<Rightarrow> w
      | Some p \<Rightarrow>
          if exists_path (files w) p
          then (if unlink_fails e p then logging WARNING TempNotDeleted w
                else logging DEBUG DeletedTemp (w\<lparr>files := unlink p (files w)\<rparr>))
          else w)"

text \<open>The body of the \<^verbatim>\<open>try\<close> once the list file is written (lines 512-562): the result
  is the returned value or the exception raised.\<close>

definition run_merge :: "env \<Rightarrow> path \<Rightarrow> path \<Rightarrow> path list \<Rightarrow> real \<Rightarrow> world \<Rightarrow> (exn + bool) \<times> world" where
  "run_merge e list_file_path video_output_path valid_videos expected w =
     (let w1 = logging DEBUG GeneratedList w;
          w2 = logging INFO StartingMerge w1;
          w3 = call (Ffmpeg list_file_path video_output_path) w2;
          r = ffmpeg e (manifest_text valid_videos) video_output_path;
          w4 = (case written r of
                  None \<Rightarrow> w3
                | Some c \<Rightarrow> w3\<lparr>files := AList.update video_output_path (File c) (files w3)\<rparr>)
      in case raised r of
           Some x \<Rightarrow> (Inl x, w4)
         | None \<Rightarrow>
             (let w5 = logging INFO MergeSaved w4;
                  w6 = logging DEBUG VerifyingDuration w5;
                  w7 = call (Ffprobe video_output_path) w6
              in case ffprobe e video_output_path of
                   ProbeRaises x \<Rightarrow> (Inl x, w7)
                 | NoMeta \<Rightarrow> (Inr True, logging WARNING MergedProbeFailed w7)
                 | Meta merged_metadata \<Rightarrow>
                     (Inr True, duration_check expected (duration merged_metadata) w7)))"

text \<open>The body of the \<^verbatim>\<open>try\<close> (lines 498-562) with the list file it created, if any.\<close>

definition try_merge ::
  "env \<Rightarrow> string \<Rightarrow> path \<Rightarrow> path list \<Rightarrow> real \<Rightarrow> world \<Rightarrow> path option \<times> (exn + bool) \<times> world"
where
  "try_merge e folder_name video_output_path valid_videos expected w =
     (case tempfile e (folder_name @ ''_ffmpeg_list_'') of
        TmpRaises x \<Rightarrow> (None, Inl x, w)
      | TmpCreated list_file_path \<Rightarrow>
          (let w1 = w\<lparr>files := AList.update list_file_path (File []) (files w)\<rparr>
           in case write_text e list_file_path (manifest_text valid_videos) (files w1) of
                (False, f) \<Rightarrow> (Some list_file_path, Inl OSError, w1\<lparr>files := f\<rparr>)
              | (True, f) \<Rightarrow>
                  (Some list_file_path,
                   run_merge e list_file_path video_output_path valid_videos expected
                     (w1\<lparr>files := f\<rparr>))))"

text \<open>The merging phase (lines 495-616): \<^verbatim>\<open>try\<close>, \<^verbatim>\<open>except\<close>, \<^verbatim>\<open>finally\<close>.\<close>

definition merge_phase ::
  "env \<Rightarrow> path \<Rightarrow> path \<Rightarrow> path \<Rightarrow> path list \<Rightarrow> real \<Rightarrow> world \<Rightarrow> bool \<times> world"
where
  "merge_phase e source_path log_dir video_output_path valid_videos expected w =
     (case try_merge e (name source_path) video_output_path valid_videos expected w of
        (list_file_path, Inr b, w1) \<Rightarrow> (b, cleanup e list_file_path w1)
      | (list_file_path, Inl x, w1) \<Rightarrow>
          (case merge_except e log_dir (name source_path) video_output_path x w1 of
             (b, w2) \<Rightarrow> (b, cleanup e list_file_path w2)))"

definition output_path_of :: "path list \<Rightarrow> path \<Rightarrow> path \<Rightarrow> path" where
  "output_path_of videos source_path output_dir =
     child output_dir (name source_path @ suffix (hd videos))"

text \<open>
  \<^verbatim>\<open>merge_video\<close>. The result is \<open>Inr\<close> of the returned Boolean, or \<open>Inl\<close> of an exception
  that leaves the function; every exception the body raises is caught by one of its handlers.
\<close>

definition merge_video ::
  "env \<Rightarrow> path list \<Rightarrow> path \<Rightarrow> path \<Rightarrow> path \<Rightarrow> world \<Rightarrow> (exn + bool) \<times> world"
where
  "merge_video e videos source_path output_dir log_dir w =
     (if videos = [] then (Inr False, logging WARNING NoVideosProvided w)
      else
        let video_output_path = output_path_of videos source_path output_dir
        in if exists_path (files w) video_output_path
           then (Inr True, logging INFO (AlreadyExists (name video_output_path)) w)
           else
             (case validate e videos source_path log_dir w of
                (Return b, w1) \<Rightarrow> (Inr b, w1)
              | (Proceed st, w1) \<Rightarrow>
                  (case merge_phase e source_path log_dir video_output_path
                          (valid_videos_for_merge st) (total_duration st) w1 of
                     (b, w2) \<Rightarrow> (Inr b, w2))))"

section \<open>The batch\<close>




section \<open>Observations on a history\<close>

text \<open>The parts probed and the \<^verbatim>\<open>ffmpeg\<close> runs (manifest, output) of a history, in order.\<close>

fun probes_of :: "event \<Rightarrow> path list" where
  "probes_of (Ffprobe p) = [p]"
| "probes_of _ = []"

fun runs_of :: "event \<Rightarrow> (path \<times> path) list" where
  "runs_of (Ffmpeg m out) = [(m, out)]"
| "runs_of _ = []"

definition probed :: "event list \<Rightarrow> path list" where
  "probed tr = concat (map probes_of tr)"

definition merged :: "event list \<Rightarrow> (path \<times> path) list" where
  "merged tr = concat (map runs_of tr)"

text \<open>A log record of level \<open>ERROR\<close> or \<open>CRITICAL\<close>.\<close>

fun severe :: "event \<Rightarrow> bool" where
  "severe (Log ERROR m) = True"
| "severe (Log CRITICAL m) = True"
| "severe ev = False"

text \<open>A part that probes with a duration of zero or less.\<close>

definition nonpositive :: "env \<Rightarrow> path \<Rightarrow> bool" where
  "nonpositive e v = (case ffprobe e v of Meta md \<Rightarrow> duration md \<le> 0 | _ \<Rightarrow> False)"

section \<open>A scenario\<close>

text \<open>
  Folder \<open>A\<close> holds two parts of 1920x1080 (30 s and 45 s), folder \<open>B\<close> a part of 1280x720 and
  one of 1920x1080, folder \<open>C\<close> an empty part of another resolution before a good one, folder
  \<open>D\<close> files whose names begin with an underscore or a dot.
\<close>

definition example_fs :: fs where
  "example_fs =
     [([''videos''], Dir),
      ([''videos'', ''A''], Dir),
      ([''videos'', ''A'', ''part1.mp4''], File []),
      ([''videos'', ''A'', ''part2.mp4''], File []),
      ([''videos'', ''B''], Dir),
      ([''videos'', ''B'', ''part1.mp4''], File []),
      ([''videos'', ''B'', ''part2.mp4''], File []),
      ([''videos'', ''C''], Dir),
      ([''videos'', ''C'', ''part1.mkv''], File []),
      ([''videos'', ''C'', ''part2.mkv''], File []),
      ([''videos'', ''D''], Dir),
      ([''videos'', ''D'', ''_teaser.mp4''], File []),
      ([''videos'', ''D'', ''.thumb.MKV''], File []),
      ([''videos'', ''D'', ''notes.txt''], File []),
      ([''videos'', ''D'', ''part1.mp4''], File []),
      ([''videos'', ''_old''], Dir),
      ([''videos'', ''.cache''], Dir),
      ([''merged''], Dir),
      ([''logs''], Dir)]"

definition example_world :: world where
  "example_world = \<lparr>files = example_fs, trace = []\<rparr>"

definition example_md :: "path \<Rightarrow> metadata" where
  "example_md p =
     (if p = [''videos'', ''A'', ''part1.mp4''] then \<lparr>duration = 30, width = 1920, height = 1080\<rparr>
      else if p = [''videos'', ''A'', ''part2.mp4''] then \<lparr>duration = 45, width = 1920, height = 1080\<rparr>
      else if p = [''videos'', ''B'', ''part1.mp4''] then \<lparr>duration = 10, width = 1280, height = 720\<rparr>
      else if p = [''videos'', ''B'', ''part2.mp4''] then \<lparr>duration = 20, width = 1920, height = 1080\<rparr>
      else if p = [''videos'', ''C'', ''part1.mkv''] then \<lparr>duration = 0, width = 640, height = 480\<rparr>
      else if p = [''videos'', ''C'', ''part2.mkv''] then \<lparr>duration = 12, width = 1920, height = 1080\<rparr>
      else \<lparr>duration = 81, width = 1920, height = 1080\<rparr>)"

definition example_probe :: "path \<Rightarrow> probe_result" where
  "example_probe p =
     (if p \<in> set [[''videos'', ''A'', ''part1.mp4''], [''videos'', ''A'', ''part2.mp4''],
                  [''videos'', ''B'', ''part1.mp4''], [''videos'', ''B'', ''part2.mp4''],
                  [''videos'', ''C'', ''part1.mkv''], [''videos'', ''C'', ''part2.mkv''],
                  [''merged'', ''A.mp4'']]
      then Meta (example_md p) else NoMeta)"

definition example_env :: env where
  "example_env =
     \<lparr>ffprobe = example_probe,
      ffmpeg = (\<lambda>manifest out. \<lparr>raised = None, written = Some ''video''\<rparr>),
      tempfile = (\<lambda>prefix. TmpCreated [''tmp'', prefix @ ''k3x9.txt'']),
      which = (\<lambda>tool. True),
      write_fails = (\<lambda>p. False),
      unlink_fails = (\<lambda>p. False),
      listdir_fails = (\<lambda>p. False)\<rparr>"

text \<open>The same with a tool that has gone missing since the start of the batch.\<close>

definition no_ffmpeg_env :: env where
  "no_ffmpeg_env =
     example_env\<lparr>ffmpeg := (\<lambda>manifest out. \<lparr>raised = Some FileNotFoundError, written = None\<rparr>)\<rparr>"


text \<open>The same with an \<^verbatim>\<open>ffmpeg\<close> that exits with an error and leaves a partial output.\<close>

definition failing_env :: env where
  "failing_env =
     example_env\<lparr>ffmpeg := (\<lambda>manifest out.
        \<lparr>raised = Some (CalledProcessError ''Invalid data found when processing input''),
         written = Some ''partial''\<rparr>)\<rparr>"

text \<open>The same on a file system that refuses every \<^verbatim>\<open>unlink\<close>.\<close>

definition locked_env :: env where
  "locked_env = example_env\<lparr>unlink_fails := (\<lambda>p. True)\<rparr>"



text \<open>The scenario after a first run has merged folder \<open>A\<close>.\<close>

definition rerun_world :: world where
  "rerun_world =
     \<lparr>files = AList.update [''merged'', ''A.mp4''] (File ''video'') example_fs, trace = []\<rparr>"

section \<open>Facts about the model\<close>

subsection \<open>Histories\<close>

lemma files_log [simp]: "files (logging l m w) = files w"
  by (simp add: logging_def)

lemma trace_log [simp]: "trace (logging l m w) = trace w @ [Log l m]"
  by (simp add: logging_def)

lemma files_call [simp]: "files (call ev w) = files w"
  by (simp add: call_def)

lemma trace_call [simp]: "trace (call ev w) = trace w @ [ev]"
  by (simp add: call_def)

lemma probed_append [simp]: "probed (xs @ ys) = probed xs @ probed ys"
  by (simp add: probed_def)

lemma merged_append [simp]: "merged (xs @ ys) = merged xs @ merged ys"
  by (simp add: merged_def)

lemma probed_simps [simp]:
  "probed [] = []" "probed (Ffprobe p # tr) = p # probed tr"
  "probed (Log l m # tr) = probed tr" "probed (Ffmpeg a b # tr) = probed tr"
  by (simp_all add: probed_def)

lemma merged_simps [simp]:
  "merged [] = []" "merged (Ffprobe p # tr) = merged tr"
  "merged (Log l m # tr) = merged tr" "merged (Ffmpeg a b # tr) = (a, b) # merged tr"
  by (simp_all add: merged_def)

lemma write_error_log_trace:
  "write_error_log e ld p c w = (ok, w') \<Longrightarrow> trace w' = trace w"
  by (auto simp: write_error_log_def split: prod.splits bool.splits)

lemma report_metadata_failure_trace:
  "\<exists>evs. trace (report_metadata_failure e sp ld v w) = trace w @ evs \<and> probed evs = [] \<and> merged evs = []"
  unfolding report_metadata_failure_def Let_def
  by (auto split: prod.splits bool.splits dest: write_error_log_trace)

lemma report_mismatch_trace:
  "\<exists>evs. trace (report_mismatch e sp ld vs v md ref st w) = trace w @ evs \<and> probed evs = [] \<and> merged evs = []
     \<and> Log ERROR MismatchInFolder \<in> set evs"
  unfolding report_mismatch_def Let_def
  by (auto split: prod.splits bool.splits dest: write_error_log_trace)

subsection \<open>The validation loop\<close>

lemma check_part_skip:
  "ffprobe e v = Meta m \<Longrightarrow> duration m \<le> 0 \<Longrightarrow>
   check_part e sp ld vs idx v st w =
     (Next st, w\<lparr>trace := trace w @ [Log DEBUG (GettingMetadata (idx + 1) (name v)), Ffprobe v,
                                      Log WARNING (SkippingPart (name v))]\<rparr>)"
  by (simp add: check_part_def logging_def call_def)

lemma check_part_first:
  "ffprobe e v = Meta m \<Longrightarrow> 0 < duration m \<Longrightarrow> first_video_metadata st = None \<Longrightarrow>
   check_part e sp ld vs idx v st w =
     (Next (accept_part v m (st\<lparr>first_video_metadata := Some m\<rparr>)),
      w\<lparr>trace := trace w @ [Log DEBUG (GettingMetadata (idx + 1) (name v)), Ffprobe v,
                             Log INFO (ReferenceSet (name v) (width m) (height m))]\<rparr>)"
  by (simp add: check_part_def logging_def call_def)

lemma check_part_match:
  "ffprobe e v = Meta m \<Longrightarrow> 0 < duration m \<Longrightarrow> first_video_metadata st = Some r \<Longrightarrow>
   width m = width r \<Longrightarrow> height m = height r \<Longrightarrow>
   check_part e sp ld vs idx v st w =
     (Next (accept_part v m st),
      w\<lparr>trace := trace w @ [Log DEBUG (GettingMetadata (idx + 1) (name v)), Ffprobe v]\<rparr>)"
  by (simp add: check_part_def logging_def call_def)

lemma check_part_mismatch:
  "ffprobe e v = Meta m \<Longrightarrow> 0 < duration m \<Longrightarrow> first_video_metadata st = Some r \<Longrightarrow>
   (width m, height m) \<noteq> (width r, height r) \<Longrightarrow>
   check_part e sp ld vs idx v st w =
     (Break (st\<lparr>resolutions_match := False\<rparr>),
      report_mismatch e sp ld vs v m r st
        (w\<lparr>trace := trace w @ [Log DEBUG (GettingMetadata (idx + 1) (name v)), Ffprobe v]\<rparr>))"
  by (simp add: check_part_def logging_def call_def)

lemma check_parts_append:
  "check_parts e sp ld vs idx (xs @ ys) st w =
     (case check_parts e sp ld vs idx xs st w of
        (Next st', w') \<Rightarrow> check_parts e sp ld vs (idx + length xs) ys st' w'
      | (Break st', w') \<Rightarrow> (Break st', w')
      | (Raise x, w') \<Rightarrow> (Raise x, w'))"
proof (induction xs arbitrary: idx st w)
  case Nil
  then show ?case by simp
next
  case (Cons x xs)
  show ?case
  proof (cases "check_part e sp ld vs idx x st w")
    case (Pair fl w')
    then show ?thesis using Cons.IH [of "idx + 1"]
      by (cases fl) (simp_all split: prod.splits flow.splits)
  qed
qed

lemma check_parts_accepting:
  assumes "\<forall>v\<in>set xs. ffprobe e v = Meta (md v) \<and>
             (0 < duration (md v) \<longrightarrow> width (md v) = W \<and> height (md v) = H)"
    and "\<forall>r. first_video_metadata st = Some r \<longrightarrow> width r = W \<and> height r = H"
  shows "\<exists>st' w' evs.
           check_parts e sp ld vs idx xs st w = (Next st', w') \<and>
           trace w' = trace w @ evs \<and> files w' = files w \<and>
           probed evs = xs \<and> merged evs = [] \<and> (\<forall>ev\<in>set evs. \<not> severe ev) \<and>
           valid_videos_for_merge st' = valid_videos_for_merge st @ [v\<leftarrow>xs. 0 < duration (md v)] \<and>
           total_duration st' = total_duration st + (\<Sum>v\<leftarrow>[v\<leftarrow>xs. 0 < duration (md v)]. duration (md v)) \<and>
           resolutions_match st' = resolutions_match st \<and>
           first_video_metadata st' =
             (case first_video_metadata st of
                Some r \<Rightarrow> Some r
              | None \<Rightarrow> map_option md (find (\<lambda>v. 0 < duration (md v)) xs))"
  using assms
proof (induction xs arbitrary: idx st w)
  case Nil
  then show ?case by (simp split: option.splits)
next
  case (Cons x xs)
  have px: "ffprobe e x = Meta (md x)" using Cons.prems(1) by simp
  have rest: "\<forall>v\<in>set xs. ffprobe e v = Meta (md v) \<and>
             (0 < duration (md v) \<longrightarrow> width (md v) = W \<and> height (md v) = H)"
    using Cons.prems(1) by simp
  consider (skip) "duration (md x) \<le> 0"
    | (first) "0 < duration (md x)" "first_video_metadata st = None"
    | (match) r where "0 < duration (md x)" "first_video_metadata st = Some r"
    by (cases "first_video_metadata st") force+
  then show ?case
  proof cases
    case skip
    let ?w = "w\<lparr>trace := trace w @ [Log DEBUG (GettingMetadata (idx + 1) (name x)), Ffprobe x,
                                      Log WARNING (SkippingPart (name x))]\<rparr>"
    from Cons.IH [OF rest Cons.prems(2), of "idx + 1" ?w]
    obtain st' w' evs where ih:
      "check_parts e sp ld vs (idx + 1) xs st ?w = (Next st', w')"
      "trace w' = trace ?w @ evs" "files w' = files ?w"
      "probed evs = xs" "merged evs = []" "\<forall>ev\<in>set evs. \<not> severe ev"
      "valid_videos_for_merge st' = valid_videos_for_merge st @ [v\<leftarrow>xs. 0 < duration (md v)]"
      "total_duration st' = total_duration st + (\<Sum>v\<leftarrow>[v\<leftarrow>xs. 0 < duration (md v)]. duration (md v))"
      "resolutions_match st' = resolutions_match st"
      "first_video_metadata st' =
             (case first_video_metadata st of
                Some r \<Rightarrow> Some r
              | None \<Rightarrow> map_option md (find (\<lambda>v. 0 < duration (md v)) xs))"
      by blast
    show ?thesis
      apply (rule exI [of _ st'], rule exI [of _ w'])
      apply (rule exI [of _ "[Log DEBUG (GettingMetadata (idx + 1) (name x)), Ffprobe x,
                                      Log WARNING (SkippingPart (name x))] @ evs"])
      using ih skip by (simp add: check_part_skip [OF px skip] split: option.splits)
  next
    case first
    let ?w = "w\<lparr>trace := trace w @ [Log DEBUG (GettingMetadata (idx + 1) (name x)), Ffprobe x,
                             Log INFO (ReferenceSet (name x) (width (md x)) (height (md x)))]\<rparr>"
    let ?st = "accept_part x (md x) (st\<lparr>first_video_metadata := Some (md x)\<rparr>)"
    have ref: "\<forall>r. first_video_metadata ?st = Some r \<longrightarrow> width r = W \<and> height r = H"
      using Cons.prems(1) first(1) by (simp add: accept_part_def)
    from Cons.IH [OF rest ref, of "idx + 1" ?w]
    obtain st' w' evs where ih:
      "check_parts e sp ld vs (idx + 1) xs ?st ?w = (Next st', w')"
      "trace w' = trace ?w @ evs" "files w' = files ?w"
      "probed evs = xs" "merged evs = []" "\<forall>ev\<in>set evs. \<not> severe ev"
      "valid_videos_for_merge st' = valid_videos_for_merge ?st @ [v\<leftarrow>xs. 0 < duration (md v)]"
      "total_duration st' = total_duration ?st + (\<Sum>v\<leftarrow>[v\<leftarrow>xs. 0 < duration (md v)]. duration (md v))"
      "resolutions_match st' = resolutions_match ?st"
      "first_video_metadata st' =
             (case first_video_metadata ?st of
                Some r \<Rightarrow> Some r
              | None \<Rightarrow> map_option md (find (\<lambda>v. 0 < duration (md v)) xs))"
      by blast
    show ?thesis
      apply (rule exI [of _ st'], rule exI [of _ w'])
      apply (rule exI [of _ "[Log DEBUG (GettingMetadata (idx + 1) (name x)), Ffprobe x,
                             Log INFO (ReferenceSet (name x) (width (md x)) (height (md x)))] @ evs"])
      using ih first by (simp add: check_part_first [OF px first] accept_part_def split: option.splits)
  next
    case match
    let ?w = "w\<lparr>trace := trace w @ [Log DEBUG (GettingMetadata (idx + 1) (name x)), Ffprobe x]\<rparr>"
    let ?st = "accept_part x (md x) st"
    have wh: "width (md x) = width r" "height (md x) = height r"
      using Cons.prems match by auto
    have ref: "\<forall>r. first_video_metadata ?st = Some r \<longrightarrow> width r = W \<and> height r = H"
      using Cons.prems(2) by (simp add: accept_part_def)
    from Cons.IH [OF rest ref, of "idx + 1" ?w]
    obtain st' w' evs where ih:
      "check_parts e sp ld vs (idx + 1) xs ?st ?w = (Next st', w')"
      "trace w' = trace ?w @ evs" "files w' = files ?w"
      "probed evs = xs" "merged evs = []" "\<forall>ev\<in>set evs. \<not> severe ev"
      "valid_videos_for_merge st' = valid_videos_for_merge ?st @ [v\<leftarrow>xs. 0 < duration (md v)]"
      "total_duration st' = total_duration ?st + (\<Sum>v\<leftarrow>[v\<leftarrow>xs. 0 < duration (md v)]. duration (md v))"
      "resolutions_match st' = resolutions_match ?st"
      "first_video_metadata st' =
             (case first_video_metadata ?st of
                Some r \<Rightarrow> Some r
              | None \<Rightarrow> map_option md (find (\<lambda>v. 0 < duration (md v)) xs))"
      by blast
    show ?thesis
      apply (rule exI [of _ st'], rule exI [of _ w'])
      apply (rule exI [of _ "[Log DEBUG (GettingMetadata (idx + 1) (name x)), Ffprobe x] @ evs"])
      using ih match by (simp add: check_part_match [OF px match wh] accept_part_def split: option.splits)
  qed
qed

lemma after_check_pass:
  assumes "resolutions_match st" "valid_videos_for_merge st \<noteq> []" "first_video_metadata st = Some r"
  shows "\<exists>w' evs. after_check e videos st w = (Proceed st, w') \<and> trace w' = trace w @ evs \<and>
           files w' = files w \<and> probed evs = [] \<and> merged evs = [] \<and> (\<forall>ev\<in>set evs. \<not> severe ev)"
  using assms by (simp add: after_check_def Let_def)

lemma validate_accepting:
  assumes "\<forall>v\<in>set videos. ffprobe e v = Meta (md v) \<and>
             (0 < duration (md v) \<longrightarrow> width (md v) = W \<and> height (md v) = H)"
  shows "\<exists>st w' evs.
           validate e videos sp ld w =
             (if [v\<leftarrow>videos. 0 < duration (md v)] = [] then Return False else Proceed st, w') \<and>
           trace w' = trace w @ evs \<and> files w' = files w \<and>
           probed evs = videos \<and> merged evs = [] \<and>
           ([v\<leftarrow>videos. 0 < duration (md v)] = [] \<longrightarrow> last evs = Log ERROR NoValidParts) \<and>
           ([v\<leftarrow>videos. 0 < duration (md v)] \<noteq> [] \<longrightarrow> (\<forall>ev\<in>set evs. \<not> severe ev)) \<and>
           valid_videos_for_merge st = [v\<leftarrow>videos. 0 < duration (md v)] \<and>
           total_duration st = (\<Sum>v\<leftarrow>[v\<leftarrow>videos. 0 < duration (md v)]. duration (md v)) \<and>
           first_video_metadata st = map_option md (find (\<lambda>v. 0 < duration (md v)) videos)"
proof -
  let ?w0 = "logging INFO CheckingResolution w"
  have init: "\<forall>r. first_video_metadata initial_state = Some r \<longrightarrow> width r = W \<and> height r = H"
    by (simp add: initial_state_def)
  from check_parts_accepting [OF assms init, of sp ld videos 0 ?w0]
  obtain st w1 evs where loop:
    "check_parts e sp ld videos 0 videos initial_state ?w0 = (Next st, w1)"
    "trace w1 = trace ?w0 @ evs" "files w1 = files ?w0"
    "probed evs = videos" "merged evs = []" "\<forall>ev\<in>set evs. \<not> severe ev"
    "valid_videos_for_merge st = [v\<leftarrow>videos. 0 < duration (md v)]"
    "total_duration st = (\<Sum>v\<leftarrow>[v\<leftarrow>videos. 0 < duration (md v)]. duration (md v))"
    "resolutions_match st"
    "first_video_metadata st = map_option md (find (\<lambda>v. 0 < duration (md v)) videos)"
    by (auto simp: initial_state_def)
  have v: "validate e videos sp ld w = after_check e videos st w1"
    by (simp add: validate_def loop(1))
  show ?thesis
  proof (cases "[v\<leftarrow>videos. 0 < duration (md v)] = []")
    case True
    have "after_check e videos st w1 = (Return False, logging ERROR NoValidParts w1)"
      using loop True by (simp add: after_check_def)
    then show ?thesis
      apply (intro exI [of _ st] exI [of _ "logging ERROR NoValidParts w1"]
          exI [of _ "Log INFO CheckingResolution # evs @ [Log ERROR NoValidParts]"])
      using loop True v by simp
  next
    case False
    then obtain x where x: "find (\<lambda>v. 0 < duration (md v)) videos = Some x"
      by (cases "find (\<lambda>v. 0 < duration (md v)) videos") (auto simp: find_None_iff filter_empty_conv)
    have "\<exists>w' evs'. after_check e videos st w1 = (Proceed st, w') \<and> trace w' = trace w1 @ evs' \<and>
           files w' = files w1 \<and> probed evs' = [] \<and> merged evs' = [] \<and> (\<forall>ev\<in>set evs'. \<not> severe ev)"
      using loop False x by (intro after_check_pass) auto
    then obtain w' evs' where ac: "after_check e videos st w1 = (Proceed st, w')"
      "trace w' = trace w1 @ evs'" "files w' = files w1" "probed evs' = []" "merged evs' = []"
      "\<forall>ev\<in>set evs'. \<not> severe ev"
      by blast
    show ?thesis
      apply (intro exI [of _ st] exI [of _ w']
          exI [of _ "Log INFO CheckingResolution # evs @ evs'"])
      using loop False v ac by auto
  qed
qed

lemma check_part_fst:
  "fst (check_part e sp ld vs idx v st w) = fst (check_part e sp ld vs idx' v st w')"
  by (simp add: check_part_def Let_def split: probe_result.splits option.splits)

lemma check_parts_fst:
  "fst (check_parts e sp ld vs idx xs st w) = fst (check_parts e sp ld vs idx' xs st w')"
proof (induction xs arbitrary: idx idx' st w w')
  case Nil
  then show ?case by simp
next
  case (Cons x xs)
  obtain fl w1 where a: "check_part e sp ld vs idx x st w = (fl, w1)" by force
  obtain fl' w1' where b: "check_part e sp ld vs idx' x st w' = (fl', w1')" by force
  have "fl = fl'" using check_part_fst [of e sp ld vs idx x st w idx' w'] a b by simp
  then show ?case using a b Cons.IH by (cases fl) auto
qed

lemma check_parts_drop_nonpositive:
  "fst (check_parts e sp ld vs idx xs st w) =
   fst (check_parts e sp ld vs idx' [v\<leftarrow>xs. \<not> nonpositive e v] st w')"
proof (induction xs arbitrary: idx idx' st w w')
  case Nil
  then show ?case by simp
next
  case (Cons x xs)
  show ?case
  proof (cases "nonpositive e x")
    case True
    then obtain m where m: "ffprobe e x = Meta m" "duration m \<le> 0"
      by (auto simp: nonpositive_def split: probe_result.splits)
    show ?thesis using True Cons.IH by (simp add: check_part_skip [OF m])
  next
    case False
    obtain fl w1 where a: "check_part e sp ld vs idx x st w = (fl, w1)" by force
    obtain fl' w1' where b: "check_part e sp ld vs idx' x st w' = (fl', w1')" by force
    have "fl = fl'" using check_part_fst [of e sp ld vs idx x st w idx' w'] a b by simp
    then show ?thesis using a b False Cons.IH by (cases fl) auto
  qed
qed

subsection \<open>The phases of \<^verbatim>\<open>merge_video\<close>\<close>

lemma merge_video_validate:
  assumes "videos \<noteq> []" "\<not> exists_path (files w) (output_path_of videos sp od)"
  shows "merge_video e videos sp od ld w =
           (case validate e videos sp ld w of
              (Return b, w1) \<Rightarrow> (Inr b, w1)
            | (Proceed st, w1) \<Rightarrow>
                (case merge_phase e sp ld (output_path_of videos sp od)
                        (valid_videos_for_merge st) (total_duration st) w1 of
                   (b, w2) \<Rightarrow> (Inr b, w2)))"
  using assms by (simp add: merge_video_def Let_def)

lemma find_append_Some:
  "find P (xs @ ys) = (case find P xs of None \<Rightarrow> find P ys | Some x \<Rightarrow> Some x)"
  by (induction xs) auto

subsection \<open>The file system\<close>

lemma exists_update [simp]:
  "exists_path (AList.update p n f) q = (q = p \<or> exists_path f q)"
  by (simp add: exists_path_def update_conv')

lemma exists_unlink [simp]:
  "exists_path (unlink p f) q = (q \<noteq> p \<and> exists_path f q)"
  by (simp add: exists_path_def unlink_def delete_conv')

lemma map_of_unlink [simp]:
  "map_of (unlink p f) q = (if q = p then None else map_of f q)"
  by (simp add: unlink_def delete_conv')


lemma exists_mkdir_each:
  "exists_path f p \<Longrightarrow> exists_path (snd (mkdir_each qs f)) p"
proof (induction qs arbitrary: f)
  case Nil
  then show ?case by simp
next
  case (Cons q qs)
  show ?case
  proof (cases "map_of f q")
    case None
    have "exists_path (AList.update q Dir f) p" using Cons.prems by simp
    from Cons.IH [OF this] show ?thesis using None by simp
  next
    case (Some n)
    show ?thesis
    proof (cases n)
      case Dir
      then show ?thesis using Some Cons.IH [OF Cons.prems] by simp
    next
      case (File c)
      then show ?thesis using Some Cons.prems by simp
    qed
  qed
qed

lemma exists_write_error_log:
  assumes "exists_path (files w) p"
  shows "exists_path (files (snd (write_error_log e ld q c w))) p"
proof (cases "write_fails e ld")
  case True
  then show ?thesis using assms by (simp add: write_error_log_def mkdir_p_def)
next
  case False
  obtain ok f where m: "mkdir_each (ancestors_and_self ld) (files w) = (ok, f)" by force
  have f: "exists_path f p"
    using exists_mkdir_each [OF assms, of "ancestors_and_self ld"] m by simp
  show ?thesis
  proof (cases ok)
    case True
    then show ?thesis using False m f by (simp add: write_error_log_def mkdir_p_def write_text_def)
  next
    case False
    then show ?thesis using \<open>\<not> write_fails e ld\<close> m f by (simp add: write_error_log_def mkdir_p_def)
  qed
qed



subsection \<open>The merging phase\<close>

lemma files_duration_check [simp]: "files (duration_check x m w) = files w"
  by (simp add: duration_check_def Let_def)

lemma run_merge_keeps:
  "exists_path (files w) p \<Longrightarrow> exists_path (files (snd (run_merge e lp out vs x w))) p"
  by (simp add: run_merge_def Let_def split: option.splits probe_result.splits)

lemma try_merge_created:
  assumes "tempfile e (fn @ ''_ffmpeg_list_'') = TmpCreated lp"
  shows "\<exists>r w1. try_merge e fn out vs x w = (Some lp, r, w1) \<and> exists_path (files w1) lp"
proof (cases "write_fails e lp")
  case True
  then show ?thesis using assms by (simp add: try_merge_def write_text_def)
next
  case False
  let ?w = "w\<lparr>files := AList.update lp (File (manifest_text vs)) (files w)\<rparr>"
  obtain r w1 where r: "run_merge e lp out vs x ?w = (r, w1)" by force
  have "exists_path (files w1) lp"
    using run_merge_keeps [of ?w lp e lp out vs x] r by simp
  then show ?thesis using assms False r by (simp add: try_merge_def write_text_def)
qed

lemma merge_except_keeps:
  assumes "unlink_fails e p" "exists_path (files w) p"
  shows "exists_path (files (snd (merge_except e ld fn out x w))) p"
proof (cases x)
  case (CalledProcessError stderr)
  let ?w1 = "logging ERROR FfmpegFailed w"
  let ?elp = "child ld (fn @ ''_ffmpeg_error.log'')"
  let ?c = "if stderr = [] then ''No stderr captured from FFmpeg.'' else stderr"
  obtain ok w' where wl: "write_error_log e ld ?elp ?c ?w1 = (ok, w')" by force
  have "exists_path (files w') p"
    using exists_write_error_log [of ?w1 p e ld ?elp ?c] assms(2) wl by simp
  then show ?thesis
    using CalledProcessError wl assms(1)
    by (cases ok) (auto simp: merge_except_def ffmpeg_failed_def Let_def)
next
  case FileNotFoundError
  then show ?thesis using assms by (simp add: merge_except_def)
next
  case OSError
  then show ?thesis using assms by (auto simp: merge_except_def merge_unexpected_def Let_def)
next
  case OtherException
  then show ?thesis using assms by (auto simp: merge_except_def merge_unexpected_def Let_def)
qed

lemma cleanup_exists:
  "exists_path (files (cleanup e (Some lp) w)) lp = (exists_path (files w) lp \<and> unlink_fails e lp)"
  by (simp add: cleanup_def)

lemma merge_phase_manifest:
  assumes "tempfile e (name sp @ ''_ffmpeg_list_'') = TmpCreated lp"
  shows "exists_path (files (snd (merge_phase e sp ld out vs x w))) lp = unlink_fails e lp"
proof -
  from try_merge_created [OF assms, of out vs x w]
  obtain r w1 where t: "try_merge e (name sp) out vs x w = (Some lp, r, w1)" "exists_path (files w1) lp"
    by blast
  show ?thesis
  proof (cases r)
    case (Inr b)
    then show ?thesis using t by (simp add: merge_phase_def cleanup_exists)
  next
    case (Inl ex)
    obtain b w2 where m: "merge_except e ld (name sp) out ex w1 = (b, w2)" by force
    have "unlink_fails e lp \<Longrightarrow> exists_path (files w2) lp"
      using merge_except_keeps [of e lp w1 ld "name sp" out ex] t(2) m by simp
    then show ?thesis using t Inl m by (auto simp: merge_phase_def cleanup_exists)
  qed
qed


lemma try_merge_ok:
  assumes "tempfile e (fn @ ''_ffmpeg_list_'') = TmpCreated lp" "\<not> write_fails e lp"
  shows "try_merge e fn out vs x w =
           (Some lp,
            run_merge e lp out vs x
              (w\<lparr>files := AList.update lp (File (manifest_text vs)) (files w)\<rparr>))"
  using assms by (simp add: try_merge_def write_text_def)

lemma trace_duration_check:
  "trace (duration_check x m w) =
     trace w @ [Log DEBUG DurationStats,
                if max 5 (x * 0.02) < \<bar>x - m\<bar> then Log WARNING DurationMismatch
                else Log INFO DurationPassed]"
  by (simp add: duration_check_def max_allowed_diff_def duration_tolerance_abs_def
      duration_tolerance_rel_def Let_def)

lemma merge_phase_completed:
  assumes tmp: "tempfile e (name sp @ ''_ffmpeg_list_'') = TmpCreated lp"
    and wr: "\<not> write_fails e lp"
    and run: "raised (ffmpeg e (manifest_text vs) out) = None"
    and pr: "\<forall>ex. ffprobe e out \<noteq> ProbeRaises ex"
  shows "\<exists>w2. merge_phase e sp ld out vs x w = (True, w2) \<and>
           trace w2 = trace w @
             [Log DEBUG GeneratedList, Log INFO StartingMerge, Ffmpeg lp out, Log INFO MergeSaved,
              Log DEBUG VerifyingDuration, Ffprobe out] @
             (case ffprobe e out of
                Meta m \<Rightarrow>
                  [Log DEBUG DurationStats,
                   if max 5 (x * 0.02) < \<bar>x - duration m\<bar> then Log WARNING DurationMismatch
                   else Log INFO DurationPassed]
              | _ \<Rightarrow> [Log WARNING MergedProbeFailed]) @
             [if unlink_fails e lp then Log WARNING TempNotDeleted else Log DEBUG DeletedTemp]"
proof -
  let ?wm = "w\<lparr>files := AList.update lp (File (manifest_text vs)) (files w)\<rparr>"
  obtain r w1 where rm: "run_merge e lp out vs x ?wm = (r, w1)" by force
  have ex: "exists_path (files w1) lp"
    using run_merge_keeps [of ?wm lp e lp out vs x] rm by simp
  have res: "r = Inr True \<and>
       trace w1 = trace w @
             [Log DEBUG GeneratedList, Log INFO StartingMerge, Ffmpeg lp out, Log INFO MergeSaved,
              Log DEBUG VerifyingDuration, Ffprobe out] @
             (case ffprobe e out of
                Meta m \<Rightarrow>
                  [Log DEBUG DurationStats,
                   if max 5 (x * 0.02) < \<bar>x - duration m\<bar> then Log WARNING DurationMismatch
                   else Log INFO DurationPassed]
              | _ \<Rightarrow> [Log WARNING MergedProbeFailed])"
    using rm run pr
    by (cases "ffprobe e out")
       (auto simp: run_merge_def Let_def trace_duration_check split: option.splits)
  show ?thesis
    using res ex rm
    by (simp add: merge_phase_def try_merge_ok [OF tmp wr] cleanup_def)
qed


subsection \<open>The batch\<close>





subsection \<open>The scenario\<close>

lemma example_probe_parts:
  "example_probe [''videos'', ''A'', ''part1.mp4''] = Meta (example_md [''videos'', ''A'', ''part1.mp4''])"
  "example_probe [''videos'', ''A'', ''part2.mp4''] = Meta (example_md [''videos'', ''A'', ''part2.mp4''])"
  "example_probe [''videos'', ''B'', ''part1.mp4''] = Meta (example_md [''videos'', ''B'', ''part1.mp4''])"
  "example_probe [''videos'', ''B'', ''part2.mp4''] = Meta (example_md [''videos'', ''B'', ''part2.mp4''])"
  "example_probe [''videos'', ''C'', ''part1.mkv''] = Meta (example_md [''videos'', ''C'', ''part1.mkv''])"
  "example_probe [''videos'', ''C'', ''part2.mkv''] = Meta (example_md [''videos'', ''C'', ''part2.mkv''])"
  "example_probe [''merged'', ''A.mp4''] = Meta (example_md [''merged'', ''A.mp4''])"
  by (simp_all add: example_probe_def)

lemma example_md_parts:
  "example_md [''videos'', ''A'', ''part1.mp4''] = \<lparr>duration = 30, width = 1920, height = 1080\<rparr>"
  "example_md [''videos'', ''A'', ''part2.mp4''] = \<lparr>duration = 45, width = 1920, height = 1080\<rparr>"
  "example_md [''videos'', ''B'', ''part1.mp4''] = \<lparr>duration = 10, width = 1280, height = 720\<rparr>"
  "example_md [''videos'', ''B'', ''part2.mp4''] = \<lparr>duration = 20, width = 1920, height = 1080\<rparr>"
  "example_md [''videos'', ''C'', ''part1.mkv''] = \<lparr>duration = 0, width = 640, height = 480\<rparr>"
  "example_md [''videos'', ''C'', ''part2.mkv''] = \<lparr>duration = 12, width = 1920, height = 1080\<rparr>"
  "example_md [''merged'', ''A.mp4''] = \<lparr>duration = 81, width = 1920, height = 1080\<rparr>"
  by (simp_all add: example_md_def)

lemma example_outputs:
  "output_path_of [[''videos'', ''A'', ''part1.mp4''], [''videos'', ''A'', ''part2.mp4'']]
     [''videos'', ''A''] [''merged''] = [''merged'', ''A.mp4'']"
  "output_path_of [[''videos'', ''B'', ''part1.mp4''], [''videos'', ''B'', ''part2.mp4'']]
     [''videos'', ''B''] [''merged''] = [''merged'', ''B.mp4'']"
  "output_path_of [[''videos'', ''C'', ''part1.mkv''], [''videos'', ''C'', ''part2.mkv'']]
     [''videos'', ''C''] [''merged''] = [''merged'', ''C.mkv'']"
  "output_path_of [[''videos'', ''C'', ''part1.mkv'']] [''videos'', ''C''] [''merged''] =
     [''merged'', ''C.mkv'']"
  by (simp_all add: output_path_of_def child_def name_def suffix_def rfind_dot_def)

lemma example_not_merged:
  "\<not> exists_path (files example_world) [''merged'', ''A.mp4'']"
  "\<not> exists_path (files example_world) [''merged'', ''B.mp4'']"
  "\<not> exists_path (files example_world) [''merged'', ''C.mkv'']"
  by (simp_all add: exists_path_def example_world_def example_fs_def)

lemma folder_A_validates:
  assumes "ffprobe e = example_probe"
  shows "\<exists>st w1. validate e [[''videos'', ''A'', ''part1.mp4''], [''videos'', ''A'', ''part2.mp4'']]
                    [''videos'', ''A''] [''logs''] example_world = (Proceed st, w1) \<and>
           valid_videos_for_merge st =
             [[''videos'', ''A'', ''part1.mp4''], [''videos'', ''A'', ''part2.mp4'']] \<and>
           total_duration st = 75 \<and> files w1 = files example_world"
proof -
  let ?vs = "[[''videos'', ''A'', ''part1.mp4''], [''videos'', ''A'', ''part2.mp4'']]"
  have h: "\<forall>v\<in>set ?vs. ffprobe e v = Meta (example_md v) \<and>
             (0 < duration (example_md v) \<longrightarrow>
                width (example_md v) = 1920 \<and> height (example_md v) = 1080)"
    by (simp add: assms example_probe_parts example_md_parts)
  have k: "[v\<leftarrow>?vs. 0 < duration (example_md v)] = ?vs"
    by (simp add: example_md_parts)
  from validate_accepting [OF h, of "[''videos'', ''A'']" "[''logs'']" example_world]
  obtain st w1 where
    "validate e ?vs [''videos'', ''A''] [''logs''] example_world =
       (if [v\<leftarrow>?vs. 0 < duration (example_md v)] = [] then Return False else Proceed st, w1)"
    "files w1 = files example_world"
    "valid_videos_for_merge st = [v\<leftarrow>?vs. 0 < duration (example_md v)]"
    "total_duration st =
       (\<Sum>v\<leftarrow>[v\<leftarrow>?vs. 0 < duration (example_md v)]. duration (example_md v))"
    by blast
  then show ?thesis unfolding k by (simp add: example_md_parts)
qed

lemma example_tmp:
  "tempfile example_env (name [''videos'', ''A''] @ ''_ffmpeg_list_'') =
     TmpCreated [''tmp'', ''A_ffmpeg_list_k3x9.txt'']"
  "tempfile failing_env (name [''videos'', ''A''] @ ''_ffmpeg_list_'') =
     TmpCreated [''tmp'', ''A_ffmpeg_list_k3x9.txt'']"
  "tempfile no_ffmpeg_env (name [''videos'', ''A''] @ ''_ffmpeg_list_'') =
     TmpCreated [''tmp'', ''A_ffmpeg_list_k3x9.txt'']"
  by (simp_all add: example_env_def failing_env_def no_ffmpeg_env_def name_def)


section \<open>The claims\<close>

subsection \<open>C1: a tool found missing during the batch\<close>




subsection \<open>C2: names beginning with an underscore or a dot\<close>




subsection \<open>C3: an output that already exists\<close>

text \<open>
  C3. When the output path \<open>output_dir / (folder name + extension of the first part)\<close>
  already exists, \<^verbatim>\<open>merge_video\<close> returns \<open>True\<close> at once: the file system is unchanged (the
  existing output is not overwritten) and the only event added to the history is the log
  record that the output exists, so nothing is probed and nothing is merged.
\<close>

theorem C3_already_exists:
  assumes "videos \<noteq> []"
    and "exists_path (files w) (output_path_of videos source_path output_dir)"
  shows "merge_video e videos source_path output_dir log_dir w =
           (Inr True,
            w\<lparr>trace := trace w @
                 [Log INFO (AlreadyExists (name (output_path_of videos source_path output_dir)))]\<rparr>)"
  using assms by (simp add: merge_video_def logging_def)

text \<open>In the scenario, once \<open>A.mp4\<close> exists.\<close>

theorem C3_already_exists_witness:
  "exists_path (files rerun_world)
     (output_path_of [[''videos'', ''A'', ''part1.mp4''], [''videos'', ''A'', ''part2.mp4'']]
        [''videos'', ''A''] [''merged'']) \<and>
   merge_video example_env [[''videos'', ''A'', ''part1.mp4''], [''videos'', ''A'', ''part2.mp4'']]
     [''videos'', ''A''] [''merged''] [''logs''] rerun_world =
     (Inr True, rerun_world\<lparr>trace := [Log INFO (AlreadyExists ''A.mp4'')]\<rparr>)"
proof -
  have ex: "exists_path (files rerun_world)
     (output_path_of [[''videos'', ''A'', ''part1.mp4''], [''videos'', ''A'', ''part2.mp4'']]
        [''videos'', ''A''] [''merged''])"
    by (simp add: example_outputs rerun_world_def)
  have ne: "[[''videos'', ''A'', ''part1.mp4''], [''videos'', ''A'', ''part2.mp4'']] \<noteq> []" by simp
  show ?thesis
    using C3_already_exists [OF ne ex, of example_env "[''logs'']"] ex
    by (simp add: example_outputs name_def rerun_world_def)
qed

subsection \<open>C4: resolution mismatch\<close>

text \<open>
  C4. In a folder whose output does not exist yet and whose parts all probe, let \<open>r\<close> be
  the first part of positive duration (it sets the reference resolution). If some part of
  positive duration has a width or a height other than \<open>r\<close>'s, then \<^verbatim>\<open>merge_video\<close> returns
  \<open>False\<close>, the resolution mismatch is logged as an error, \<^verbatim>\<open>ffmpeg\<close> is never run, and
  the parts probed are exactly those up to and including the first mismatching part \<open>v\<close>:
  validation stops there. Only equal width and equal height match.
\<close>

theorem C4_resolution_mismatch:
  assumes noout: "\<not> exists_path (files w) (output_path_of videos sp od)"
    and probes: "\<forall>v\<in>set videos. ffprobe e v = Meta (md v)"
    and ref: "find (\<lambda>v. 0 < duration (md v)) videos = Some r"
    and mism: "\<exists>v\<in>set videos. 0 < duration (md v) \<and>
                 (width (md v), height (md v)) \<noteq> (width (md r), height (md r))"
  shows "\<exists>w' evs pre v post.
           merge_video e videos sp od ld w = (Inr False, w') \<and>
           trace w' = trace w @ evs \<and> merged evs = [] \<and>
           Log ERROR MismatchInFolder \<in> set evs \<and>
           videos = pre @ v # post \<and> probed evs = pre @ [v] \<and>
           0 < duration (md v) \<and> (width (md v), height (md v)) \<noteq> (width (md r), height (md r)) \<and>
           (\<forall>y\<in>set pre. duration (md y) \<le> 0 \<or>
              (width (md y), height (md y)) = (width (md r), height (md r)))"
proof -
  let ?P = "\<lambda>v. 0 < duration (md v) \<and> (width (md v), height (md v)) \<noteq> (width (md r), height (md r))"
  from split_list_first_prop [OF mism]
  obtain pre v post where dec: "videos = pre @ v # post" "?P v" "\<forall>y\<in>set pre. \<not> ?P y"
    by blast
  have ne: "videos \<noteq> []" using dec by simp
  have fpre: "find (\<lambda>v. 0 < duration (md v)) pre = Some r"
  proof (cases "find (\<lambda>v. 0 < duration (md v)) pre")
    case None
    then have "r = v" using ref dec(1,2) by (simp add: find_append_Some)
    then show ?thesis using dec(2) by simp
  next
    case (Some x)
    then show ?thesis using ref dec(1) by (simp add: find_append_Some)
  qed
  let ?w0 = "logging INFO CheckingResolution w"
  have acc: "\<forall>y\<in>set pre. ffprobe e y = Meta (md y) \<and>
               (0 < duration (md y) \<longrightarrow> width (md y) = width (md r) \<and> height (md y) = height (md r))"
    using probes dec(1,3) by auto
  have init: "\<forall>x. first_video_metadata initial_state = Some x \<longrightarrow>
                width x = width (md r) \<and> height x = height (md r)"
    by (simp add: initial_state_def)
  from check_parts_accepting [OF acc init, of sp ld videos 0 ?w0]
  obtain st1 w1 evs1 where loop:
    "check_parts e sp ld videos 0 pre initial_state ?w0 = (Next st1, w1)"
    "trace w1 = trace ?w0 @ evs1" "probed evs1 = pre" "merged evs1 = []"
    "first_video_metadata st1 = Some (md r)"
    by (auto simp: initial_state_def fpre)
  let ?w2 = "w1\<lparr>trace := trace w1 @ [Log DEBUG (GettingMetadata (length pre + 1) (name v)), Ffprobe v]\<rparr>"
  let ?w3 = "report_mismatch e sp ld videos v (md v) (md r) st1 ?w2"
  have pv: "ffprobe e v = Meta (md v)" using probes dec(1) by simp
  have step: "check_part e sp ld videos (length pre) v st1 w1 =
                (Break (st1\<lparr>resolutions_match := False\<rparr>), ?w3)"
    using check_part_mismatch [OF pv _ loop(5), of sp ld videos "length pre" w1] dec(2) by simp
  have "check_parts e sp ld videos 0 (pre @ v # post) initial_state ?w0 =
                 (Break (st1\<lparr>resolutions_match := False\<rparr>), ?w3)"
    by (simp add: check_parts_append loop(1) step)
  then have whole: "check_parts e sp ld videos 0 videos initial_state ?w0 =
                 (Break (st1\<lparr>resolutions_match := False\<rparr>), ?w3)"
    by (simp only: dec(1) [symmetric])
  have val: "validate e videos sp ld w = (Return False, ?w3)"
    by (simp add: validate_def whole after_check_def)
  have mv: "merge_video e videos sp od ld w = (Inr False, ?w3)"
    by (simp add: merge_video_validate [OF ne noout] val)
  from report_mismatch_trace [of e sp ld videos v "md v" "md r" st1 ?w2]
  obtain evs3 where t3: "trace ?w3 = trace ?w2 @ evs3" "probed evs3 = []" "merged evs3 = []"
    "Log ERROR MismatchInFolder \<in> set evs3"
    by blast
  let ?evs = "Log INFO CheckingResolution # evs1 @
                [Log DEBUG (GettingMetadata (length pre + 1) (name v)), Ffprobe v] @ evs3"
  have tr: "trace ?w3 = trace w @ ?evs" using t3(1) loop(2) by simp
  have "merge_video e videos sp od ld w = (Inr False, ?w3) \<and>
           trace ?w3 = trace w @ ?evs \<and> merged ?evs = [] \<and>
           Log ERROR MismatchInFolder \<in> set ?evs \<and>
           videos = pre @ v # post \<and> probed ?evs = pre @ [v] \<and>
           0 < duration (md v) \<and> (width (md v), height (md v)) \<noteq> (width (md r), height (md r)) \<and>
           (\<forall>y\<in>set pre. duration (md y) \<le> 0 \<or>
              (width (md y), height (md y)) = (width (md r), height (md r)))"
    using mv tr t3 loop(3,4) dec by (auto simp: not_less)
  then show ?thesis by blast
qed

text \<open>In the scenario, folder \<open>B\<close>.\<close>

theorem C4_resolution_mismatch_witness:
  "fst (merge_video example_env
          [[''videos'', ''B'', ''part1.mp4''], [''videos'', ''B'', ''part2.mp4'']]
          [''videos'', ''B''] [''merged''] [''logs''] example_world) = Inr False \<and>
   merged (trace (snd (merge_video example_env
          [[''videos'', ''B'', ''part1.mp4''], [''videos'', ''B'', ''part2.mp4'']]
          [''videos'', ''B''] [''merged''] [''logs''] example_world))) = []"
proof -
  let ?vs = "[[''videos'', ''B'', ''part1.mp4''], [''videos'', ''B'', ''part2.mp4'']]"
  have a: "\<not> exists_path (files example_world) (output_path_of ?vs [''videos'', ''B''] [''merged''])"
    by (simp add: example_outputs example_not_merged)
  have b: "\<forall>v\<in>set ?vs. ffprobe example_env v = Meta (example_md v)"
    by (simp add: example_env_def example_probe_parts)
  have c: "find (\<lambda>v. 0 < duration (example_md v)) ?vs = Some [''videos'', ''B'', ''part1.mp4'']"
    by (simp add: example_md_parts)
  have d: "\<exists>v\<in>set ?vs. 0 < duration (example_md v) \<and>
             (width (example_md v), height (example_md v)) \<noteq>
             (width (example_md [''videos'', ''B'', ''part1.mp4'']),
              height (example_md [''videos'', ''B'', ''part1.mp4'']))"
    by (simp add: example_md_parts)
  from C4_resolution_mismatch [OF a b c d, of "[''logs'']"]
  obtain w' evs where r: "merge_video example_env ?vs [''videos'', ''B''] [''merged''] [''logs'']
      example_world = (Inr False, w')" "trace w' = trace example_world @ evs" "merged evs = []"
    by blast
  show ?thesis using r by (simp add: example_world_def)
qed

subsection \<open>C5: the validated merge set\<close>



subsection \<open>C6: the concat list file\<close>

text \<open>
  C6, as the code has it. On every exit path of the merging phase (success, failure of
  \<^verbatim>\<open>ffmpeg\<close>, unexpected error) the \<^verbatim>\<open>finally\<close> clause tries to delete the concat list file
  that was created. The file is absent afterwards exactly when that \<^verbatim>\<open>unlink\<close> does not fail:
  if it raises \<^verbatim>\<open>OSError\<close> the code only logs a warning and the file stays.
\<close>

theorem C6_manifest_cleanup:
  assumes "tempfile e (name sp @ ''_ffmpeg_list_'') = TmpCreated lp"
  shows "exists_path (files (snd (merge_phase e sp ld out vs x w))) lp = unlink_fails e lp"
  using assms by (rule merge_phase_manifest)

text \<open>In the scenario, folder \<open>A\<close>.\<close>

theorem C6_manifest_cleanup_witness:
  "tempfile example_env (name [''videos'', ''A''] @ ''_ffmpeg_list_'') =
     TmpCreated [''tmp'', ''A_ffmpeg_list_k3x9.txt''] \<and>
   \<not> exists_path
       (files (snd (merge_phase example_env [''videos'', ''A''] [''logs''] [''merged'', ''A.mp4'']
          [[''videos'', ''A'', ''part1.mp4''], [''videos'', ''A'', ''part2.mp4'']] 75 example_world)))
       [''tmp'', ''A_ffmpeg_list_k3x9.txt'']"
  using C6_manifest_cleanup [OF example_tmp(1), of "[''logs'']" "[''merged'', ''A.mp4'']"
      "[[''videos'', ''A'', ''part1.mp4''], [''videos'', ''A'', ''part2.mp4'']]" 75 example_world]
    example_tmp(1)
  by (simp add: example_env_def)

text \<open>Where \<^verbatim>\<open>unlink\<close> fails, the list file is still there after a successful merge.\<close>

theorem C6_manifest_cleanup_counterexample:
  "\<exists>w2. merge_video locked_env
           [[''videos'', ''A'', ''part1.mp4''], [''videos'', ''A'', ''part2.mp4'']]
           [''videos'', ''A''] [''merged''] [''logs''] example_world = (Inr True, w2) \<and>
        exists_path (files w2) [''tmp'', ''A_ffmpeg_list_k3x9.txt'']"
proof -
  let ?vs = "[[''videos'', ''A'', ''part1.mp4''], [''videos'', ''A'', ''part2.mp4'']]"
  let ?out = "[''merged'', ''A.mp4'']"
  let ?lp = "[''tmp'', ''A_ffmpeg_list_k3x9.txt'']"
  have pe: "ffprobe locked_env = example_probe" by (simp add: locked_env_def example_env_def)
  from folder_A_validates [OF pe]
  obtain st w1 where v: "validate locked_env ?vs [''videos'', ''A''] [''logs''] example_world =
      (Proceed st, w1)"
    by blast
  have ne: "?vs \<noteq> []" by simp
  have noout: "\<not> exists_path (files example_world) (output_path_of ?vs [''videos'', ''A''] [''merged''])"
    by (simp add: example_outputs example_not_merged)
  have tmp: "tempfile locked_env (name [''videos'', ''A''] @ ''_ffmpeg_list_'') = TmpCreated ?lp"
    by (simp add: locked_env_def example_env_def name_def)
  have wr: "\<not> write_fails locked_env ?lp" by (simp add: locked_env_def example_env_def)
  have run: "raised (ffmpeg locked_env (manifest_text (valid_videos_for_merge st)) ?out) = None"
    by (simp add: locked_env_def example_env_def)
  have pr: "\<forall>ex. ffprobe locked_env ?out \<noteq> ProbeRaises ex"
    by (simp add: pe example_probe_parts)
  from merge_phase_completed [OF tmp wr run pr, where ld = "[''logs'']" and x = "total_duration st"
      and w = w1]
  obtain w2 where m: "merge_phase locked_env [''videos'', ''A''] [''logs''] ?out
      (valid_videos_for_merge st) (total_duration st) w1 = (True, w2)"
    by blast
  have "exists_path (files (snd (merge_phase locked_env [''videos'', ''A''] [''logs''] ?out
      (valid_videos_for_merge st) (total_duration st) w1))) ?lp = unlink_fails locked_env ?lp"
    by (rule merge_phase_manifest [OF tmp])
  then have "exists_path (files w2) ?lp = unlink_fails locked_env ?lp"
    by (simp only: m snd_conv)
  then have ex: "exists_path (files w2) ?lp"
    by (simp add: locked_env_def)
  have "merge_video locked_env ?vs [''videos'', ''A''] [''merged''] [''logs''] example_world =
          (Inr True, w2)"
    by (simp add: merge_video_validate [OF ne noout] v example_outputs m)
  then show ?thesis using ex by blast
qed

subsection \<open>C7: a failed run of ffmpeg\<close>




subsection \<open>C8: the duration check is advisory\<close>



subsection \<open>C9: parts of zero or negative duration\<close>

text \<open>
  C9. In a folder whose output does not exist yet, whose parts all probe and whose parts of
  positive duration share one resolution, the parts of duration zero or less are left out
  and nothing else: if a part remains, validation succeeds without any error record, the
  merge set is the remaining parts in their order and the merging phase runs on them; if
  none remains, \<^verbatim>\<open>merge_video\<close> returns \<open>False\<close> with the error that no valid part was found,
  without running \<^verbatim>\<open>ffmpeg\<close>.
\<close>

theorem C9_nonpositive_excluded:
  assumes ne: "videos \<noteq> []"
    and noout: "\<not> exists_path (files w) (output_path_of videos sp od)"
    and probes: "\<forall>v\<in>set videos. ffprobe e v = Meta (md v) \<and>
                   (0 < duration (md v) \<longrightarrow> width (md v) = W \<and> height (md v) = H)"
    and kept: "kept = [v\<leftarrow>videos. 0 < duration (md v)]"
  shows "(kept \<noteq> [] \<longrightarrow>
            (\<exists>st w1 evs.
               validate e videos sp ld w = (Proceed st, w1) \<and>
               trace w1 = trace w @ evs \<and> (\<forall>ev\<in>set evs. \<not> severe ev) \<and>
               valid_videos_for_merge st = kept \<and>
               total_duration st = (\<Sum>v\<leftarrow>kept. duration (md v)) \<and>
               merge_video e videos sp od ld w =
                 (case merge_phase e sp ld (output_path_of videos sp od) kept
                         (\<Sum>v\<leftarrow>kept. duration (md v)) w1 of
                    (b, w2) \<Rightarrow> (Inr b, w2)))) \<and>
         (kept = [] \<longrightarrow>
            (\<exists>w1 evs.
               merge_video e videos sp od ld w = (Inr False, w1) \<and>
               trace w1 = trace w @ evs \<and> last evs = Log ERROR NoValidParts \<and>
               merged evs = [] \<and> files w1 = files w))"
proof -
  from validate_accepting [OF probes, of sp ld w]
  obtain st w1 evs where v:
    "validate e videos sp ld w = (if kept = [] then Return False else Proceed st, w1)"
    "trace w1 = trace w @ evs" "files w1 = files w" "merged evs = []"
    "kept = [] \<longrightarrow> last evs = Log ERROR NoValidParts"
    "kept \<noteq> [] \<longrightarrow> (\<forall>ev\<in>set evs. \<not> severe ev)"
    "valid_videos_for_merge st = kept"
    "total_duration st = (\<Sum>v\<leftarrow>kept. duration (md v))"
    unfolding kept by blast
  show ?thesis
  proof (cases "kept = []")
    case True
    then show ?thesis
      using v by (simp add: merge_video_validate [OF ne noout])
  next
    case False
    then show ?thesis
      using v by (auto simp: merge_video_validate [OF ne noout])
  qed
qed

text \<open>In the scenario, folder \<open>C\<close>, and its empty part alone.\<close>

theorem C9_nonpositive_excluded_witness:
  "(\<exists>st w1. validate example_env
               [[''videos'', ''C'', ''part1.mkv''], [''videos'', ''C'', ''part2.mkv'']]
               [''videos'', ''C''] [''logs''] example_world = (Proceed st, w1) \<and>
            valid_videos_for_merge st = [[''videos'', ''C'', ''part2.mkv'']] \<and>
            total_duration st = 12) \<and>
   fst (merge_video example_env [[''videos'', ''C'', ''part1.mkv'']]
          [''videos'', ''C''] [''merged''] [''logs''] example_world) = Inr False"
proof -
  let ?vs = "[[''videos'', ''C'', ''part1.mkv''], [''videos'', ''C'', ''part2.mkv'']]"
  have ne: "?vs \<noteq> []" by simp
  have a: "\<not> exists_path (files example_world) (output_path_of ?vs [''videos'', ''C''] [''merged''])"
    by (simp add: example_outputs example_not_merged)
  have b: "\<forall>v\<in>set ?vs. ffprobe example_env v = Meta (example_md v) \<and>
             (0 < duration (example_md v) \<longrightarrow>
                width (example_md v) = 1920 \<and> height (example_md v) = 1080)"
    by (simp add: example_env_def example_probe_parts example_md_parts)
  have k: "[[''videos'', ''C'', ''part2.mkv'']] = [v\<leftarrow>?vs. 0 < duration (example_md v)]"
    by (simp add: example_md_parts)
  have first: "\<exists>st w1. validate example_env ?vs [''videos'', ''C''] [''logs''] example_world =
                 (Proceed st, w1) \<and>
            valid_videos_for_merge st = [[''videos'', ''C'', ''part2.mkv'']] \<and>
            total_duration st = 12"
  proof -
    from conjunct1 [OF C9_nonpositive_excluded [OF ne a b k, of "[''logs'']"]]
    obtain st w1 where "validate example_env ?vs [''videos'', ''C''] [''logs''] example_world =
                 (Proceed st, w1)"
      "valid_videos_for_merge st = [[''videos'', ''C'', ''part2.mkv'']]"
      "total_duration st = (\<Sum>v\<leftarrow>[[''videos'', ''C'', ''part2.mkv'']]. duration (example_md v))"
      by blast
    then show ?thesis by (simp add: example_md_parts)
  qed
  let ?one = "[[''videos'', ''C'', ''part1.mkv'']]"
  have ne1: "?one \<noteq> []" by simp
  have a1: "\<not> exists_path (files example_world) (output_path_of ?one [''videos'', ''C''] [''merged''])"
    by (simp add: example_outputs example_not_merged)
  have b1: "\<forall>v\<in>set ?one. ffprobe example_env v = Meta (example_md v) \<and>
             (0 < duration (example_md v) \<longrightarrow>
                width (example_md v) = 1920 \<and> height (example_md v) = 1080)"
    by (simp add: example_env_def example_probe_parts example_md_parts)
  have k1: "[] = [v\<leftarrow>?one. 0 < duration (example_md v)]"
    by (simp add: example_md_parts)
  have second: "fst (merge_video example_env ?one [''videos'', ''C''] [''merged''] [''logs'']
                  example_world) = Inr False"
  proof -
    from conjunct2 [OF C9_nonpositive_excluded [OF ne1 a1 b1 k1, of "[''logs'']"]]
    obtain w1 where "merge_video example_env ?one [''videos'', ''C''] [''merged''] [''logs'']
                  example_world = (Inr False, w1)"
      by blast
    then show ?thesis by simp
  qed
  show ?thesis using first second by blast
qed

subsection \<open>C10: the duration test comes before the resolution test\<close>

text \<open>
  C10. An iteration of the validation loop on a part that probes with a duration of zero
  or less only logs that the part is skipped: the loop goes on with the state it had, so
  the part sets no reference resolution and flags no mismatch, whatever its width and
  height. Hence the loop ends in the same state (or exception) on a list of parts as on
  that list without its parts of duration zero or less.
\<close>

theorem C10_nonpositive_before_resolution:
  "(ffprobe e v = Meta m \<and> duration m \<le> 0 \<longrightarrow>
      check_part e sp ld vs idx v st w =
        (Next st, w\<lparr>trace := trace w @ [Log DEBUG (GettingMetadata (idx + 1) (name v)), Ffprobe v,
                                         Log WARNING (SkippingPart (name v))]\<rparr>)) \<and>
   fst (check_parts e sp ld vs idx xs st w) =
     fst (check_parts e sp ld vs idx' [v\<leftarrow>xs. \<not> nonpositive e v] st w')"
  using check_part_skip [of e v m sp ld vs idx st w]
    check_parts_drop_nonpositive [of e sp ld vs idx xs st w idx' w']
  by blast

text \<open>In the scenario, folder \<open>C\<close>: the empty part is of 640x480, the reference of 1920x1080.\<close>

theorem C10_nonpositive_before_resolution_witness:
  "check_part example_env [''videos'', ''C''] [''logs'']
     [[''videos'', ''C'', ''part1.mkv''], [''videos'', ''C'', ''part2.mkv'']] 0
     [''videos'', ''C'', ''part1.mkv''] initial_state example_world =
     (Next initial_state,
      example_world\<lparr>trace := [Log DEBUG (GettingMetadata 1 ''part1.mkv''),
                                Ffprobe [''videos'', ''C'', ''part1.mkv''],
                                Log WARNING (SkippingPart ''part1.mkv'')]\<rparr>) \<and>
   fst (check_parts example_env [''videos'', ''C''] [''logs'']
          [[''videos'', ''C'', ''part1.mkv''], [''videos'', ''C'', ''part2.mkv'']] 0
          [[''videos'', ''C'', ''part1.mkv''], [''videos'', ''C'', ''part2.mkv'']]
          initial_state example_world) =
   fst (check_parts example_env [''videos'', ''C''] [''logs'']
          [[''videos'', ''C'', ''part1.mkv''], [''videos'', ''C'', ''part2.mkv'']] 0
          [[''videos'', ''C'', ''part2.mkv'']] initial_state example_world)"
proof -
  have p: "ffprobe example_env [''videos'', ''C'', ''part1.mkv''] =
             Meta \<lparr>duration = 0, width = 640, height = 480\<rparr>"
    by (simp add: example_env_def example_probe_parts example_md_parts)
  have f: "[v\<leftarrow>[[''videos'', ''C'', ''part1.mkv''], [''videos'', ''C'', ''part2.mkv'']].
             \<not> nonpositive example_env v] = [[''videos'', ''C'', ''part2.mkv'']]"
    by (simp add: nonpositive_def example_env_def example_probe_parts example_md_parts)
  note th = C10_nonpositive_before_resolution
      [of example_env "[''videos'', ''C'', ''part1.mkv'']"
          "\<lparr>duration = 0, width = 640, height = 480\<rparr>" "[''videos'', ''C'']" "[''logs'']"
          "[[''videos'', ''C'', ''part1.mkv''], [''videos'', ''C'', ''part2.mkv'']]" 0
          initial_state example_world
          "[[''videos'', ''C'', ''part1.mkv''], [''videos'', ''C'', ''part2.mkv'']]" 0 example_world]
  have n: "name [''videos'', ''C'', ''part1.mkv''] = ''part1.mkv''" by (simp add: name_def)
  have t: "trace example_world = []" by (simp add: example_world_def)
  show ?thesis
  proof (rule conjI)
    show "check_part example_env [''videos'', ''C''] [''logs'']
     [[''videos'', ''C'', ''part1.mkv''], [''videos'', ''C'', ''part2.mkv'']] 0
     [''videos'', ''C'', ''part1.mkv''] initial_state example_world =
     (Next initial_state,
      example_world\<lparr>trace := [Log DEBUG (GettingMetadata 1 ''part1.mkv''),
                                Ffprobe [''videos'', ''C'', ''part1.mkv''],
                                Log WARNING (SkippingPart ''part1.mkv'')]\<rparr>)"
      using conjunct1 [OF th] p by (simp add: n t)
    show "fst (check_parts example_env [''videos'', ''C''] [''logs'']
          [[''videos'', ''C'', ''part1.mkv''], [''videos'', ''C'', ''part2.mkv'']] 0
          [[''videos'', ''C'', ''part1.mkv''], [''videos'', ''C'', ''part2.mkv'']]
          initial_state example_world) =
      fst (check_parts example_env [''videos'', ''C''] [''logs'']
          [[''videos'', ''C'', ''part1.mkv''], [''videos'', ''C'', ''part2.mkv'']] 0
          [[''videos'', ''C'', ''part2.mkv'']] initial_state example_world)"
      using conjunct2 [OF th] by (simp only: f)
  qed
qed

end
